theory Spec2Isabelle
  imports Main "HOL-Library.Word"
begin

section \<open>The conversion endpoint of \<^verbatim>\<open>src/api/convert.py\<close>\<close>

text \<open>
  The repository is one Flask view function, \<^verbatim>\<open>convert_pdf\<close>, with the helper
  \<^verbatim>\<open>allowed_file\<close> and two configuration constants. The view is embedded as a function
  from an environment (the behaviour of the library and operating-system calls the view
  makes), a request and a world (the filesystem and the ordered record of the external
  calls made so far) to a response and the new world. Every \<^verbatim>\<open>raise\<close> of the source
  is a value \<open>Inl msg\<close>, where \<open>msg\<close> is what \<^verbatim>\<open>str(e)\<close> gives for the exception.
\<close>

subsection \<open>Strings: the Python operations on the file name\<close>

text \<open>
  File names are \<^typ>\<open>string\<close>s. \<^verbatim>\<open>str.lower\<close> is written out on the ASCII letters; a
  character outside \<open>A\<close>..\<open>Z\<close> is left as it is (no character outside ASCII lowercases
  to \<open>p\<close>, \<open>d\<close> or \<open>f\<close>, so the extension test does not depend on it).
\<close>

definition lower_char :: "char \<Rightarrow> char" where
  "lower_char c =
     (case map_of (zip ''ABCDEFGHIJKLMNOPQRSTUVWXYZ'' ''abcdefghijklmnopqrstuvwxyz'') c of
        Some l \<Rightarrow> l
      | None \<Rightarrow> c)"

definition lower :: "string \<Rightarrow> string" where
  "lower s = map lower_char s"

text \<open>\<^verbatim>\<open>s.rfind(c)\<close>: the index of the last occurrence, \<open>None\<close> for Python's \<open>-1\<close>.\<close>

fun rfind :: "char \<Rightarrow> string \<Rightarrow> nat option" where
  "rfind c [] = None"
| "rfind c (x # xs) =
     (case rfind c xs of
        Some i \<Rightarrow> Some (Suc i)
      | None \<Rightarrow> (if x = c then Some 0 else None))"

text \<open>\<^verbatim>\<open>s.rsplit(c, 1)\<close>: one split at the last occurrence of the separator, if any.\<close>

definition rsplit1 :: "char \<Rightarrow> string \<Rightarrow> string list" where
  "rsplit1 c s =
     (case rfind c s of
        None \<Rightarrow> [s]
      | Some i \<Rightarrow> [take i s, drop (Suc i) s])"

text \<open>\<^verbatim>\<open>xs[i]\<close> for a non-negative index: out of range raises \<^verbatim>\<open>IndexError\<close>.\<close>

definition py_index :: "'a list \<Rightarrow> nat \<Rightarrow> string + 'a" where
  "py_index xs i = (if i < length xs then Inr (xs ! i) else Inl ''list index out of range'')"

subsection \<open>Configuration (lines 15-16) and \<^verbatim>\<open>allowed_file\<close> (lines 18-19)\<close>

definition MAX_FILE_SIZE :: nat where
  "MAX_FILE_SIZE = 10 * 1024 * 1024"

definition ALLOWED_EXTENSIONS :: "string list" where
  "ALLOWED_EXTENSIONS = [''pdf'']"

text \<open>
  \<^verbatim>\<open>'.' in filename and filename.rsplit('.', 1)[1].lower() in ALLOWED_EXTENSIONS\<close>.
  The \<^verbatim>\<open>and\<close> evaluates its right operand only when the left one holds.
\<close>

definition allowed_file :: "string \<Rightarrow> string + bool" where
  "allowed_file filename =
     (if CHR ''.'' \<in> set filename then
        (case py_index (rsplit1 CHR ''.'' filename) 1 of
           Inl exn \<Rightarrow> Inl exn
         | Inr ext \<Rightarrow> Inr (lower ext \<in> set ALLOWED_EXTENSIONS))
      else Inr False)"

text \<open>
  The specification's wording of the same test, for comparison with the code: the
  extension is the substring after the last \<open>.\<close>; a name without a \<open>.\<close> has none.
\<close>

definition spec_extension :: "string \<Rightarrow> string option" where
  "spec_extension filename =
     (if CHR ''.'' \<in> set filename
      then Some (rev (takeWhile (\<lambda>c. c \<noteq> CHR ''.'') (rev filename)))
      else None)"

definition spec_is_pdf :: "string \<Rightarrow> bool" where
  "spec_is_pdf filename =
     (case spec_extension filename of
        None \<Rightarrow> False
      | Some ext \<Rightarrow> lower ext = ''pdf'')"

subsection \<open>\<^verbatim>\<open>werkzeug.utils.secure_filename\<close> and \<^verbatim>\<open>os.path.splitext\<close>\<close>

text \<open>
  Both are library functions the view calls at lines 57-58; they are modelled as the
  library defines them on a POSIX host (\<^verbatim>\<open>os.sep\<close> is \<open>/\<close>, there is no
  \<^verbatim>\<open>os.path.altsep\<close>, and the reserved device names of Windows are not checked).
  \<^verbatim>\<open>secure_filename\<close> first replaces every character outside ASCII by the ASCII part of
  its compatibility decomposition (\<^verbatim>\<open>normalize("NFKD")\<close> then
  \<^verbatim>\<open>encode("ascii", "ignore")\<close>); that table is the parameter \<open>tr\<close>.
\<close>

definition is_ascii :: "char \<Rightarrow> bool" where
  "is_ascii c = ((of_char c :: nat) < 128)"

definition ascii_fold :: "(char \<Rightarrow> string) \<Rightarrow> string \<Rightarrow> string" where
  "ascii_fold tr s = concat (map (\<lambda>c. if is_ascii c then [c] else filter is_ascii (tr c)) s)"

text \<open>\<^verbatim>\<open>str.isspace\<close> on ASCII: codes 9 to 13, 28 to 31 and the space.\<close>

definition is_space :: "char \<Rightarrow> bool" where
  "is_space c =
     (let n = (of_char c :: nat) in (9 \<le> n \<and> n \<le> 13) \<or> (28 \<le> n \<and> n \<le> 32))"

text \<open>\<^verbatim>\<open>s.split()\<close>: the maximal runs of characters that are not whitespace.\<close>

fun split_acc :: "string \<Rightarrow> string \<Rightarrow> string list" where
  "split_acc tok [] = (if tok = [] then [] else [tok])"
| "split_acc tok (c # cs) =
     (if is_space c then (if tok = [] then split_acc [] cs else tok # split_acc [] cs)
      else split_acc (tok @ [c]) cs)"

definition py_split :: "string \<Rightarrow> string list" where
  "py_split s = split_acc [] s"

fun py_join :: "string \<Rightarrow> string list \<Rightarrow> string" where
  "py_join sep [] = []"
| "py_join sep [x] = x"
| "py_join sep (x # y # ys) = x @ sep @ py_join sep (y # ys)"

text \<open>The characters the pattern \<^verbatim>\<open>[^A-Za-z0-9_.-]\<close> does not remove.\<close>

definition filename_char :: "char \<Rightarrow> bool" where
  "filename_char c =
     (c \<in> set ''ABCDEFGHIJKLMNOPQRSTUVWXYZabcdefghijklmnopqrstuvwxyz0123456789_.-'')"

definition py_strip :: "string \<Rightarrow> string \<Rightarrow> string" where
  "py_strip chars s =
     rev (dropWhile (\<lambda>c. c \<in> set chars) (rev (dropWhile (\<lambda>c. c \<in> set chars) s)))"

definition secure_filename :: "(char \<Rightarrow> string) \<Rightarrow> string \<Rightarrow> string" where
  "secure_filename tr filename =
     (let f1 = ascii_fold tr filename;
          f2 = map (\<lambda>c. if c = CHR ''/'' then CHR '' '' else c) f1;
          f3 = filter filename_char (py_join ''_'' (py_split f2))
      in py_strip ''._'' f3)"

text \<open>
  \<^verbatim>\<open>posixpath.splitext\<close>: the split is at the last \<open>.\<close> when it comes after the last
  \<open>/\<close> and some character between that \<open>/\<close> and the \<open>.\<close> is not a \<open>.\<close> (leading
  dots of the last component do not start an extension).
\<close>

definition splitext :: "string \<Rightarrow> string \<times> string" where
  "splitext p =
     (case rfind CHR ''.'' p of
        None \<Rightarrow> (p, [])
      | Some dotIndex \<Rightarrow>
          (let filenameIndex = (case rfind CHR ''/'' p of None \<Rightarrow> 0 | Some sepIndex \<Rightarrow> Suc sepIndex)
           in if filenameIndex \<le> dotIndex \<and>
                 list_ex (\<lambda>c. c \<noteq> CHR ''.'') (drop filenameIndex (take dotIndex p))
              then (take dotIndex p, drop dotIndex p)
              else (p, [])))"

subsection \<open>Requests, responses, the filesystem and the external calls\<close>

type_synonym path = string
type_synonym bytes = "8 word list"
type_synonym filesystem = "path \<rightharpoonup> bytes"

text \<open>
  An uploaded file (\<^verbatim>\<open>werkzeug.datastructures.FileStorage\<close>): the name the client
  claims, and a seekable stream, that is its bytes and the current position.
\<close>

record upload =
  filename :: string
  content :: bytes
  pos :: nat

text \<open>
  \<^verbatim>\<open>request.files\<close> is a multi-dictionary: the pairs of field name and file in the
  order of the form, indexing gives the first file of that name. The field
  \<open>http_method\<close> is \<^verbatim>\<open>request.method\<close>, and \<open>url_path\<close> is the path the request
  was sent to.
\<close>

record request =
  http_method :: string
  url_path :: string
  files :: "(string \<times> upload) list"

datatype json_value = JBool bool | JString string

datatype body = JsonBody "(string \<times> json_value) list" | FileBody bytes

text \<open>
  A response: the status, the content type, the download name when the body is sent as
  an attachment (\<^verbatim>\<open>as_attachment=True, download_name=...\<close>), the headers the view adds
  with \<^verbatim>\<open>response.headers.add\<close>, and the body. The other headers that \<^verbatim>\<open>send_file\<close>
  and \<^verbatim>\<open>jsonify\<close> compute (length, dates, caching) are not part of the model.
\<close>

record response =
  status :: nat
  content_type :: string
  attachment :: "string option"
  headers :: "(string \<times> string) list"
  payload :: body

text \<open>The external calls of the view, in the order it makes them.\<close>

datatype call =
    NamedTemporaryFile string
  | Save path
  | Convert path path
  | SendFile path
  | Exists path
  | Unlink path
  | Print string

record world =
  fs :: filesystem
  trace :: "call list"

text \<open>
  What the view does not decide:
  \<^item> \<open>tmp_stem\<close>: the name \<^verbatim>\<open>tempfile\<close> picks (directory, prefix and random part) in a
    given filesystem, or the error it raises;
  \<^item> \<open>save_error\<close>: the error \<^verbatim>\<open>file.save\<close> raises when writing to a path, if any;
  \<^item> \<open>converter\<close>: the Document Converter (\<^verbatim>\<open>Converter(src)\<close>, \<^verbatim>\<open>convert(dst, start=0,
    end=None)\<close>, \<^verbatim>\<open>close()\<close> as one step), a black box on the filesystem that
    returns, or raises an error with a message;
  \<^item> \<open>stat_error\<close>: the text of the error \<^verbatim>\<open>send_file\<close> raises for a path with no file;
  \<^item> \<open>unlink_error\<close>: the error \<^verbatim>\<open>os.unlink\<close> raises for a path, if any;
  \<^item> \<open>translit\<close>: the table of \<^const>\<open>ascii_fold\<close>.
\<close>

record env =
  tmp_stem :: "filesystem \<Rightarrow> string + string"
  save_error :: "path \<Rightarrow> string option"
  converter :: "path \<Rightarrow> path \<Rightarrow> filesystem \<Rightarrow> string option \<times> filesystem"
  stat_error :: "path \<Rightarrow> string"
  unlink_error :: "path \<Rightarrow> string option"
  translit :: "char \<Rightarrow> string"

definition called :: "call \<Rightarrow> world \<Rightarrow> world" where
  "called c w = w\<lparr>trace := trace w @ [c]\<rparr>"

text \<open>\<^verbatim>\<open>jsonify(d)\<close>, and \<^verbatim>\<open>jsonify({'success': False, 'error': msg}), code\<close>.\<close>

definition jsonify :: "(string \<times> json_value) list \<Rightarrow> response" where
  "jsonify d =
     \<lparr>status = 200, content_type = ''application/json'', attachment = None,
      headers = [], payload = JsonBody d\<rparr>"

definition error_response :: "nat \<Rightarrow> string \<Rightarrow> response" where
  "error_response code msg =
     (jsonify [(''success'', JBool False), (''error'', JString msg)])\<lparr>status := code\<rparr>"

definition headers_add :: "string \<Rightarrow> string \<Rightarrow> response \<Rightarrow> response" where
  "headers_add k v r = r\<lparr>headers := headers r @ [(k, v)]\<rparr>"

text \<open>The stream operations of lines 49-51, and the bytes \<^verbatim>\<open>file.save\<close> copies.\<close>

definition seek_end :: "upload \<Rightarrow> upload" where
  "seek_end f = f\<lparr>pos := length (content f)\<rparr>"

definition tell :: "upload \<Rightarrow> nat" where
  "tell f = pos f"

definition seek_start :: "upload \<Rightarrow> upload" where
  "seek_start f = f\<lparr>pos := 0\<rparr>"

definition remaining :: "upload \<Rightarrow> bytes" where
  "remaining f = drop (pos f) (content f)"

text \<open>
  \<^verbatim>\<open>tempfile.NamedTemporaryFile(delete=False, suffix=...)\<close>: a new empty file whose name
  ends with the suffix. The file is opened exclusively, so a name that is taken is
  an error, never an overwrite.
\<close>

definition named_temporary_file :: "env \<Rightarrow> string \<Rightarrow> world \<Rightarrow> (string + path) \<times> world" where
  "named_temporary_file e suffix w =
     (let w1 = called (NamedTemporaryFile suffix) w in
      case tmp_stem e (fs w1) of
        Inl exn \<Rightarrow> (Inl exn, w1)
      | Inr stem \<Rightarrow>
          (case fs w1 (stem @ suffix) of
             Some _ \<Rightarrow> (Inl ''[Errno 17] No usable temporary file name found'', w1)
           | None \<Rightarrow> (Inr (stem @ suffix), w1\<lparr>fs := (fs w1)(stem @ suffix \<mapsto> [])\<rparr>)))"

text \<open>\<^verbatim>\<open>file.save(path)\<close>: the bytes from the current position on are written to the path.\<close>

definition save :: "env \<Rightarrow> upload \<Rightarrow> path \<Rightarrow> world \<Rightarrow> (string + unit) \<times> world" where
  "save e f p w =
     (let w1 = called (Save p) w in
      case save_error e p of
        Some exn \<Rightarrow> (Inl exn, w1)
      | None \<Rightarrow> (Inr (), w1\<lparr>fs := (fs w1)(p \<mapsto> remaining f)\<rparr>))"

text \<open>
  \<^verbatim>\<open>send_file(path, as_attachment=True, download_name=..., mimetype=...)\<close>: the file is
  opened when the call is made, and the body is what that open file holds (on a POSIX
  host a later \<^verbatim>\<open>os.unlink\<close> of the path does not change it).
\<close>

definition docx_mimetype :: string where
  "docx_mimetype = ''application/vnd.openxmlformats-officedocument.wordprocessingml.document''"

definition send_file :: "env \<Rightarrow> path \<Rightarrow> string \<Rightarrow> string \<Rightarrow> world \<Rightarrow> (string + response) \<times> world" where
  "send_file e p download_name mimetype w =
     (let w1 = called (SendFile p) w in
      case fs w1 p of
        None \<Rightarrow> (Inl (stat_error e p), w1)
      | Some bs \<Rightarrow>
          (Inr \<lparr>status = 200, content_type = mimetype, attachment = Some download_name,
                headers = [], payload = FileBody bs\<rparr>, w1))"

text \<open>\<^verbatim>\<open>if os.path.exists(p): os.unlink(p)\<close>; \<open>Some exn\<close> when the deletion raises.\<close>

definition unlink_if_exists :: "env \<Rightarrow> path \<Rightarrow> world \<Rightarrow> string option \<times> world" where
  "unlink_if_exists e p w =
     (let w1 = called (Exists p) w in
      case fs w1 p of
        None \<Rightarrow> (None, w1)
      | Some _ \<Rightarrow>
          (let w2 = called (Unlink p) w1 in
           case unlink_error e p of
             Some exn \<Rightarrow> (Some exn, w2)
           | None \<Rightarrow> (None, w2\<lparr>fs := (fs w2)(p := None)\<rparr>)))"

subsection \<open>The view \<^verbatim>\<open>convert_pdf\<close> (lines 21-102)\<close>

text \<open>Lines 89-95, the body of the \<^verbatim>\<open>finally\<close>: both deletions are in one \<^verbatim>\<open>try\<close>.\<close>

definition cleanup :: "env \<Rightarrow> path \<Rightarrow> path \<Rightarrow> world \<Rightarrow> world" where
  "cleanup e pdf_path docx_path w =
     (case unlink_if_exists e pdf_path w of
        (Some cleanup_error, w1) \<Rightarrow> called (Print (''Cleanup error: '' @ cleanup_error)) w1
      | (None, w1) \<Rightarrow>
          (case unlink_if_exists e docx_path w1 of
             (Some cleanup_error, w2) \<Rightarrow> called (Print (''Cleanup error: '' @ cleanup_error)) w2
           | (None, w2) \<Rightarrow> w2))"

text \<open>Lines 69-85, the body of the inner \<^verbatim>\<open>try\<close>.\<close>

definition convert_and_send ::
  "env \<Rightarrow> path \<Rightarrow> path \<Rightarrow> string \<Rightarrow> world \<Rightarrow> (string + response) \<times> world" where
  "convert_and_send e pdf_path docx_path base_name w =
     (let w1 = called (Convert pdf_path docx_path) w in
      case converter e pdf_path docx_path (fs w1) of
        (Some exn, fs') \<Rightarrow> (Inl exn, w1\<lparr>fs := fs'\<rparr>)
      | (None, fs') \<Rightarrow>
          (case send_file e docx_path (base_name @ ''.docx'') docx_mimetype (w1\<lparr>fs := fs'\<rparr>) of
             (Inl exn, w2) \<Rightarrow> (Inl exn, w2)
           | (Inr response, w2) \<Rightarrow>
               (Inr (headers_add ''Access-Control-Allow-Origin'' ''*'' response), w2)))"

text \<open>Lines 61-66: the two temporary files; the upload is saved into the first.\<close>

definition stage :: "env \<Rightarrow> upload \<Rightarrow> world \<Rightarrow> (string + path \<times> path) \<times> world" where
  "stage e f w =
     (case named_temporary_file e ''.pdf'' w of
        (Inl exn, w1) \<Rightarrow> (Inl exn, w1)
      | (Inr pdf_path, w1) \<Rightarrow>
          (case save e f pdf_path w1 of
             (Inl exn, w2) \<Rightarrow> (Inl exn, w2)
           | (Inr _, w2) \<Rightarrow>
               (case named_temporary_file e ''.docx'' w2 of
                  (Inl exn, w3) \<Rightarrow> (Inl exn, w3)
                | (Inr docx_path, w3) \<Rightarrow> (Inr (pdf_path, docx_path), w3))))"

text \<open>
  Lines 36-95, the body of the outer \<^verbatim>\<open>try\<close>: \<open>Inr\<close> is a \<^verbatim>\<open>return\<close>, \<open>Inl\<close> an
  exception that reaches line 97.
\<close>

definition try_body :: "env \<Rightarrow> request \<Rightarrow> world \<Rightarrow> (string + response) \<times> world" where
  "try_body e req w =
     (case map_of (files req) ''file'' of
        None \<Rightarrow> (Inr (error_response 400 ''No file uploaded''), w)
      | Some file \<Rightarrow>
          if filename file = [] then (Inr (error_response 400 ''No file selected''), w)
          else
            (case allowed_file (filename file) of
               Inl exn \<Rightarrow> (Inl exn, w)
             | Inr allowed \<Rightarrow>
                 if \<not> allowed then (Inr (error_response 400 ''Only PDF files are allowed''), w)
                 else
                   (let file1 = seek_end file;
                        file_size = tell file1;
                        file2 = seek_start file1
                    in if file_size > MAX_FILE_SIZE
                       then (Inr (error_response 400 ''File size exceeds 10MB limit''), w)
                       else
                         (let original_filename = secure_filename (translit e) (filename file);
                              base_name = fst (splitext original_filename)
                          in case stage e file2 w of
                               (Inl exn, w1) \<Rightarrow> (Inl exn, w1)
                             | (Inr (pdf_path, docx_path), w1) \<Rightarrow>
                                 (case convert_and_send e pdf_path docx_path base_name w1 of
                                    (r, w2) \<Rightarrow> (r, cleanup e pdf_path docx_path w2))))))"

text \<open>Lines 29-33, the answer to the CORS preflight.\<close>

definition preflight_response :: response where
  "preflight_response =
     headers_add ''Access-Control-Allow-Methods'' ''POST''
       (headers_add ''Access-Control-Allow-Headers'' ''Content-Type''
          (headers_add ''Access-Control-Allow-Origin'' ''*''
             (jsonify [(''status'', JString ''ok'')])))"

definition convert_pdf :: "env \<Rightarrow> request \<Rightarrow> world \<Rightarrow> response \<times> world" where
  "convert_pdf e req w =
     (if http_method req = ''OPTIONS'' then (preflight_response, w)
      else
        (case try_body e req w of
           (Inr response, w1) \<Rightarrow> (response, w1)
         | (Inl exn, w1) \<Rightarrow>
             (error_response 500 (''Conversion failed: '' @ exn),
              called (Print (''Conversion error: '' @ exn)) w1)))"

subsection \<open>The route (line 21) and Flask's dispatch (line 108)\<close>

text \<open>
  \<^verbatim>\<open>@app.route('/api/convert', methods=['POST', 'OPTIONS'])\<close> is the only rule of the
  application. \<^verbatim>\<open>app.full_dispatch_request()\<close> calls the view for a request whose path
  is the rule's and whose method is one of the rule's; no view runs for any other request.
\<close>

definition route_rule :: string where
  "route_rule = ''/api/convert''"

definition route_methods :: "string list" where
  "route_methods = [''POST'', ''OPTIONS'']"

datatype routing_error = NotFound | MethodNotAllowed

definition full_dispatch_request :: "env \<Rightarrow> request \<Rightarrow> world \<Rightarrow> (routing_error + response) \<times> world" where
  "full_dispatch_request e req w =
     (if url_path req \<noteq> route_rule then (Inl NotFound, w)
      else if http_method req \<notin> set route_methods then (Inl MethodNotAllowed, w)
      else (case convert_pdf e req w of (r, w1) \<Rightarrow> (Inr r, w1)))"

subsection \<open>The specification's validation order\<close>

text \<open>
  The four checks as the specification lists them, in its order; the first one that
  does not pass is the one reported. They are stated on the file found under the form
  field \<open>file\<close>, if any. The messages are those of lines 38, 43, 46 and 54.
\<close>

datatype check = FilePresent | FilenameNonEmpty | ExtensionAllowed | SizeWithinLimit

fun spec_check_passes :: "upload option \<Rightarrow> check \<Rightarrow> bool" where
  "spec_check_passes None c = False"
| "spec_check_passes (Some f) FilePresent = True"
| "spec_check_passes (Some f) FilenameNonEmpty = (filename f \<noteq> [])"
| "spec_check_passes (Some f) ExtensionAllowed = spec_is_pdf (filename f)"
| "spec_check_passes (Some f) SizeWithinLimit = (length (content f) \<le> 10 * 1024 * 1024)"

definition spec_first_failure :: "upload option \<Rightarrow> check option" where
  "spec_first_failure u =
     find (\<lambda>c. \<not> spec_check_passes u c)
       [FilePresent, FilenameNonEmpty, ExtensionAllowed, SizeWithinLimit]"

fun rejection_message :: "check \<Rightarrow> string" where
  "rejection_message FilePresent = ''No file uploaded''"
| "rejection_message FilenameNonEmpty = ''No file selected''"
| "rejection_message ExtensionAllowed = ''Only PDF files are allowed''"
| "rejection_message SizeWithinLimit = ''File size exceeds 10MB limit''"

text \<open>How many times the Document Converter was invoked in a record of calls.\<close>

fun is_convert :: "call \<Rightarrow> bool" where
  "is_convert (Convert src dst) = True"
| "is_convert c = False"

definition converter_calls :: "call list \<Rightarrow> nat" where
  "converter_calls cs = length (filter is_convert cs)"

subsection \<open>Concrete requests and environments\<close>

text \<open>
  A world with no file and no call made; an environment in which every external call
  succeeds and the converter writes four bytes to its destination; variants of it in
  which the converter raises, having written two bytes, and in which every deletion
  raises.
\<close>

definition empty_world :: world where
  "empty_world = \<lparr>fs = Map.empty, trace = []\<rparr>"

definition good_env :: env where
  "good_env =
     \<lparr>tmp_stem = (\<lambda>f. Inr ''/tmp/tmpk3x9''),
      save_error = (\<lambda>p. None),
      converter = (\<lambda>src dst f. (None, f(dst \<mapsto> [80, 75, 3, 4]))),
      stat_error = (\<lambda>p. ''[Errno 2] No such file or directory''),
      unlink_error = (\<lambda>p. None),
      translit = (\<lambda>c. [])\<rparr>"

definition failing_converter_env :: env where
  "failing_converter_env =
     good_env\<lparr>converter := (\<lambda>src dst f. (Some ''not a PDF'', f(dst \<mapsto> [80, 75])))\<rparr>"

definition failing_unlink_env :: env where
  "failing_unlink_env = good_env\<lparr>unlink_error := (\<lambda>p. Some ''[Errno 13] Permission denied'')\<rparr>"

definition upload_of :: "string \<Rightarrow> bytes \<Rightarrow> upload" where
  "upload_of name bs = \<lparr>filename = name, content = bs, pos = 0\<rparr>"

definition post_to :: "string \<Rightarrow> (string \<times> upload) list \<Rightarrow> request" where
  "post_to p form = \<lparr>http_method = ''POST'', url_path = p, files = form\<rparr>"

definition options_to :: "string \<Rightarrow> (string \<times> upload) list \<Rightarrow> request" where
  "options_to p form = \<lparr>http_method = ''OPTIONS'', url_path = p, files = form\<rparr>"

section \<open>Properties\<close>

subsection \<open>The extension test\<close>

lemma rfind_None: "(rfind c s = None) = (c \<notin> set s)"
  by (induction s) (auto split: option.splits)

lemma rfind_suffix:
  "rfind c s = Some i \<Longrightarrow> drop (Suc i) s = rev (takeWhile (\<lambda>x. x \<noteq> c) (rev s))"
proof (induction s arbitrary: i)
  case Nil
  then show ?case by simp
next
  case (Cons x xs)
  show ?case
  proof (cases "rfind c xs")
    case None
    then have notin: "c \<notin> set xs" by (simp add: rfind_None)
    from Cons.prems None have xc: "x = c" and i0: "i = 0"
      by (auto split: if_splits)
    have "takeWhile (\<lambda>x. x \<noteq> c) (rev xs @ [c]) = rev xs @ takeWhile (\<lambda>x. x \<noteq> c) [c]"
      using notin by (intro takeWhile_append2) auto
    then show ?thesis
      by (simp add: xc i0)
  next
    case (Some j)
    then have "c \<in> set (rev xs)" using rfind_None [of c xs] by auto
    then have "takeWhile (\<lambda>x. x \<noteq> c) (rev xs @ [x]) = takeWhile (\<lambda>x. x \<noteq> c) (rev xs)"
      by (rule takeWhile_append1) simp
    moreover from Cons.prems Some have "i = Suc j" by simp
    ultimately show ?thesis using Cons.IH [OF Some] by simp
  qed
qed

text \<open>
  \<^const>\<open>allowed_file\<close> never raises (the index \<open>1\<close> is read only when the name has a
  \<open>.\<close>, and then the split has two parts), and it decides the specification's test.
\<close>

lemma allowed_file_spec: "allowed_file f = Inr (spec_is_pdf f)"
proof (cases "CHR ''.'' \<in> set f")
  case False
  then show ?thesis by (simp add: allowed_file_def spec_is_pdf_def spec_extension_def)
next
  case True
  then obtain i where i: "rfind CHR ''.'' f = Some i"
    using rfind_None [of "CHR ''.''" f] by auto
  from rfind_suffix [OF i] True i show ?thesis
    by (simp add: allowed_file_def spec_is_pdf_def spec_extension_def rsplit1_def py_index_def
        ALLOWED_EXTENSIONS_def)
qed

subsection \<open>The paths through the view\<close>

lemma convert_pdf_post:
  "http_method req = ''POST'' \<Longrightarrow>
   convert_pdf e req w =
     (case try_body e req w of
        (Inr response, w1) \<Rightarrow> (response, w1)
      | (Inl exn, w1) \<Rightarrow>
          (error_response 500 (''Conversion failed: '' @ exn),
           called (Print (''Conversion error: '' @ exn)) w1))"
  by (simp add: convert_pdf_def)

lemma try_body_no_field:
  "map_of (files req) ''file'' = None \<Longrightarrow>
   try_body e req w = (Inr (error_response 400 ''No file uploaded''), w)"
  by (simp add: try_body_def)

lemma try_body_no_name:
  "map_of (files req) ''file'' = Some file \<Longrightarrow> filename file = [] \<Longrightarrow>
   try_body e req w = (Inr (error_response 400 ''No file selected''), w)"
  by (simp add: try_body_def)

lemma try_body_not_pdf:
  "map_of (files req) ''file'' = Some file \<Longrightarrow> filename file \<noteq> [] \<Longrightarrow>
   \<not> spec_is_pdf (filename file) \<Longrightarrow>
   try_body e req w = (Inr (error_response 400 ''Only PDF files are allowed''), w)"
  by (simp add: try_body_def allowed_file_spec)

lemma try_body_too_large:
  "map_of (files req) ''file'' = Some file \<Longrightarrow> filename file \<noteq> [] \<Longrightarrow>
   spec_is_pdf (filename file) \<Longrightarrow> MAX_FILE_SIZE < length (content file) \<Longrightarrow>
   try_body e req w = (Inr (error_response 400 ''File size exceeds 10MB limit''), w)"
  by (simp add: try_body_def allowed_file_spec tell_def seek_end_def)

lemma try_body_valid:
  "map_of (files req) ''file'' = Some file \<Longrightarrow> filename file \<noteq> [] \<Longrightarrow>
   spec_is_pdf (filename file) \<Longrightarrow> length (content file) \<le> MAX_FILE_SIZE \<Longrightarrow>
   try_body e req w =
     (case stage e (seek_start (seek_end file)) w of
        (Inl exn, w1) \<Rightarrow> (Inl exn, w1)
      | (Inr (pdf_path, docx_path), w1) \<Rightarrow>
          (case convert_and_send e pdf_path docx_path
                  (fst (splitext (secure_filename (translit e) (filename file)))) w1 of
             (r, w2) \<Rightarrow> (r, cleanup e pdf_path docx_path w2)))"
  by (simp add: try_body_def allowed_file_spec tell_def seek_end_def Let_def)

lemma convert_and_send_status:
  "convert_and_send e p d b w = (Inr r, w') \<Longrightarrow> status r = 200"
  by (auto simp: convert_and_send_def send_file_def headers_add_def Let_def
      split: prod.splits option.splits sum.splits)

text \<open>A request that passes the four checks is never answered with status 400.\<close>

lemma status_valid:
  assumes "http_method req = ''POST''" "map_of (files req) ''file'' = Some file"
    "filename file \<noteq> []" "spec_is_pdf (filename file)" "length (content file) \<le> MAX_FILE_SIZE"
  shows "status (fst (convert_pdf e req w)) \<noteq> 400"
proof -
  note tb = try_body_valid [OF assms(2-5), of e w]
  show ?thesis
  proof (cases "stage e (seek_start (seek_end file)) w")
    case (Pair r w1)
    show ?thesis
    proof (cases r)
      case (Inl exn)
      with Pair tb show ?thesis
        by (simp add: convert_pdf_post [OF assms(1)] error_response_def jsonify_def)
    next
      case (Inr pp)
      obtain pdf docx where pp: "pp = (pdf, docx)" by (cases pp)
      obtain r2 w2 where cs: "convert_and_send e pdf docx
                  (fst (splitext (secure_filename (translit e) (filename file)))) w1 = (r2, w2)"
        by (cases "convert_and_send e pdf docx
                  (fst (splitext (secure_filename (translit e) (filename file)))) w1")
      show ?thesis
      proof (cases r2)
        case (Inl exn)
        with Pair Inr pp cs tb show ?thesis
          by (simp add: convert_pdf_post [OF assms(1)] error_response_def jsonify_def)
      next
        case (Inr resp)
        with cs have "status resp = 200" by (simp add: convert_and_send_status)
        with Pair \<open>r = Inr pp\<close> pp cs Inr tb show ?thesis
          by (simp add: convert_pdf_post [OF assms(1)])
      qed
    qed
  qed
qed

subsection \<open>Validation\<close>

text \<open>
  Claim C5. For every non-empty file name, the type check passes if and only if the
  substring after the last \<open>.\<close>, lowercased, is \<open>pdf\<close> (\<^const>\<open>spec_is_pdf\<close>, which is
  false for a name with no \<open>.\<close>); a POST request whose file name fails the check is
  answered with status 400 and the JSON object with \<open>success\<close> false and the error
  \<open>Only PDF files are allowed\<close>, and the world is left as it was.
\<close>

theorem extension_check:
  assumes "http_method req = ''POST''"
    and "map_of (files req) ''file'' = Some file"
    and "filename file \<noteq> []"
  shows "allowed_file (filename file) = Inr (spec_is_pdf (filename file)) \<and>
         (\<not> spec_is_pdf (filename file) \<longrightarrow>
            convert_pdf e req w =
              (\<lparr>status = 400, content_type = ''application/json'', attachment = None,
                headers = [],
                payload = JsonBody [(''success'', JBool False), (''error'', JString ''Only PDF files are allowed'')]\<rparr>, w))"
  using assms
  by (simp add: allowed_file_spec convert_pdf_post try_body_not_pdf error_response_def
      jsonify_def)

theorem extension_check_witness:
  "allowed_file ''notes.txt'' = Inr False \<and>
   allowed_file ''Report.PDF'' = Inr True \<and>
   convert_pdf good_env (post_to ''/api/convert'' [(''file'', upload_of ''notes.txt'' [1, 2, 3])])
       empty_world =
     (\<lparr>status = 400, content_type = ''application/json'', attachment = None,
       headers = [],
       payload = JsonBody [(''success'', JBool False), (''error'', JString ''Only PDF files are allowed'')]\<rparr>, empty_world)"
  using extension_check [of "post_to ''/api/convert'' [(''file'', upload_of ''notes.txt'' [1, 2, 3])]"
      "upload_of ''notes.txt'' [1, 2, 3]" good_env empty_world]
    extension_check [of "post_to ''/api/convert'' [(''file'', upload_of ''Report.PDF'' [1, 2, 3])]"
      "upload_of ''Report.PDF'' [1, 2, 3]" good_env empty_world]
  by (simp add: post_to_def upload_of_def spec_is_pdf_def spec_extension_def lower_def
      lower_char_def)

text \<open>
  Claim C10. A POST request whose non-empty file name has no \<open>.\<close> at all is rejected
  with status 400 and the JSON object with \<open>success\<close> false and the error
  \<open>Only PDF files are allowed\<close>, not with either of the errors for a missing file; the
  extension test is false for such a name.
\<close>

theorem dotless_filename:
  assumes "http_method req = ''POST''"
    and "map_of (files req) ''file'' = Some file"
    and "filename file \<noteq> []"
    and "CHR ''.'' \<notin> set (filename file)"
  shows "allowed_file (filename file) = Inr False \<and>
         convert_pdf e req w =
           (\<lparr>status = 400, content_type = ''application/json'', attachment = None,
             headers = [],
             payload = JsonBody [(''success'', JBool False), (''error'', JString ''Only PDF files are allowed'')]\<rparr>, w) \<and>
         status (fst (convert_pdf e req w)) = 400 \<and>
         payload (fst (convert_pdf e req w)) \<noteq>
           JsonBody [(''success'', JBool False), (''error'', JString ''No file uploaded'')] \<and>
         payload (fst (convert_pdf e req w)) \<noteq>
           JsonBody [(''success'', JBool False), (''error'', JString ''No file selected'')]"
proof -
  from assms(4) have no: "\<not> spec_is_pdf (filename file)"
    by (simp add: spec_is_pdf_def spec_extension_def)
  then have "convert_pdf e req w = (error_response 400 ''Only PDF files are allowed'', w)"
    using assms by (simp add: convert_pdf_post try_body_not_pdf)
  with no show ?thesis
    by (simp add: allowed_file_spec error_response_def jsonify_def)
qed

theorem dotless_filename_witness:
  "allowed_file ''pdf'' = Inr False \<and>
   convert_pdf good_env (post_to ''/api/convert'' [(''file'', upload_of ''pdf'' [1, 2, 3])])
       empty_world =
     (\<lparr>status = 400, content_type = ''application/json'', attachment = None,
       headers = [],
       payload = JsonBody [(''success'', JBool False), (''error'', JString ''Only PDF files are allowed'')]\<rparr>, empty_world)"
  using dotless_filename [of "post_to ''/api/convert'' [(''file'', upload_of ''pdf'' [1, 2, 3])]"
      "upload_of ''pdf'' [1, 2, 3]" good_env empty_world]
  by (simp add: post_to_def upload_of_def)

text \<open>The first check that fails, as the specification orders them, and what it means.\<close>

lemma spec_first_failure_cases:
  "spec_first_failure u = Some c \<Longrightarrow>
   (c = FilePresent \<and> u = None) \<or>
   (\<exists>f. u = Some f \<and>
     ((c = FilenameNonEmpty \<and> filename f = []) \<or>
      (c = ExtensionAllowed \<and> filename f \<noteq> [] \<and> \<not> spec_is_pdf (filename f)) \<or>
      (c = SizeWithinLimit \<and> filename f \<noteq> [] \<and> spec_is_pdf (filename f) \<and>
         MAX_FILE_SIZE < length (content f))))"
  by (cases u) (auto simp: spec_first_failure_def MAX_FILE_SIZE_def split: if_splits)

text \<open>
  Claim C2. For every POST request, the checks are applied in the order file field
  present, file name non-empty, extension allowed, size within limit, and the first
  one that fails decides the answer: status 400 and the JSON object with \<open>success\<close>
  false and the error message of that check, and the world is unchanged, so no
  temporary file was created and no external call (the converter among them) was made.
\<close>

theorem validation_order:
  assumes "http_method req = ''POST''"
    and "spec_first_failure (map_of (files req) ''file'') = Some c"
  shows "convert_pdf e req w =
           (\<lparr>status = 400, content_type = ''application/json'', attachment = None,
             headers = [],
             payload = JsonBody [(''success'', JBool False), (''error'', JString (rejection_message c))]\<rparr>, w) \<and>
         status (fst (convert_pdf e req w)) = 400 \<and>
         trace (snd (convert_pdf e req w)) = trace w \<and>
         fs (snd (convert_pdf e req w)) = fs w"
  using spec_first_failure_cases [OF assms(2)] assms(1)
  by (auto simp: convert_pdf_post try_body_no_field try_body_no_name try_body_not_pdf
      try_body_too_large error_response_def jsonify_def)

theorem validation_order_witness:
  "convert_pdf good_env (post_to ''/api/convert'' [(''document'', upload_of ''a.pdf'' [1])])
       empty_world =
     (\<lparr>status = 400, content_type = ''application/json'', attachment = None,
       headers = [],
       payload = JsonBody [(''success'', JBool False), (''error'', JString ''No file uploaded'')]\<rparr>, empty_world) \<and>
   convert_pdf good_env
       (post_to ''/api/convert'' [(''file'', upload_of [] (replicate (11 * 1024 * 1024) 0))])
       empty_world =
     (\<lparr>status = 400, content_type = ''application/json'', attachment = None,
       headers = [],
       payload = JsonBody [(''success'', JBool False), (''error'', JString ''No file selected'')]\<rparr>, empty_world) \<and>
   convert_pdf good_env
       (post_to ''/api/convert'' [(''file'', upload_of ''a.txt'' (replicate (11 * 1024 * 1024) 0))])
       empty_world =
     (\<lparr>status = 400, content_type = ''application/json'', attachment = None,
       headers = [],
       payload = JsonBody [(''success'', JBool False), (''error'', JString ''Only PDF files are allowed'')]\<rparr>, empty_world) \<and>
   convert_pdf good_env
       (post_to ''/api/convert'' [(''file'', upload_of ''a.pdf'' (replicate (11 * 1024 * 1024) 0))])
       empty_world =
     (\<lparr>status = 400, content_type = ''application/json'', attachment = None,
       headers = [],
       payload = JsonBody [(''success'', JBool False), (''error'', JString ''File size exceeds 10MB limit'')]\<rparr>, empty_world)"
  using
    validation_order [of "post_to ''/api/convert'' [(''document'', upload_of ''a.pdf'' [1])]"
      FilePresent good_env empty_world]
    validation_order [of "post_to ''/api/convert'' [(''file'', upload_of [] (replicate (11 * 1024 * 1024) 0))]"
      FilenameNonEmpty good_env empty_world]
    validation_order [of "post_to ''/api/convert'' [(''file'', upload_of ''a.txt'' (replicate (11 * 1024 * 1024) 0))]"
      ExtensionAllowed good_env empty_world]
    validation_order [of "post_to ''/api/convert'' [(''file'', upload_of ''a.pdf'' (replicate (11 * 1024 * 1024) 0))]"
      SizeWithinLimit good_env empty_world]
  by (simp add: post_to_def upload_of_def spec_first_failure_def spec_is_pdf_def
      spec_extension_def lower_def lower_char_def)

text \<open>
  Claim C4. For every upload that passes the three earlier checks, the size measured
  by seeking to the end of the stream is the number of bytes of the upload, the stream
  is back at its start afterwards, and the request is answered with status 400 exactly
  when that size is strictly greater than 10 * 1024 * 1024, then with the error
  \<open>File size exceeds 10MB limit\<close>; an upload of exactly 10 * 1024 * 1024 bytes is not
  rejected.
\<close>

theorem size_check:
  assumes "http_method req = ''POST''"
    and "map_of (files req) ''file'' = Some file"
    and "filename file \<noteq> []"
    and "allowed_file (filename file) = Inr True"
  shows "tell (seek_end file) = length (content file) \<and>
         pos (seek_start (seek_end file)) = 0 \<and>
         (status (fst (convert_pdf e req w)) = 400) = (10 * 1024 * 1024 < tell (seek_end file)) \<and>
         (10 * 1024 * 1024 < tell (seek_end file) \<longrightarrow>
            convert_pdf e req w = (error_response 400 ''File size exceeds 10MB limit'', w))"
proof -
  from assms(4) have pdf: "spec_is_pdf (filename file)"
    by (simp add: allowed_file_spec)
  have t: "tell (seek_end file) = length (content file)"
    by (simp add: tell_def seek_end_def)
  have large: "convert_pdf e req w = (error_response 400 ''File size exceeds 10MB limit'', w)"
    if "MAX_FILE_SIZE < length (content file)"
    using that assms(1-3) pdf by (simp add: convert_pdf_post try_body_too_large)
  have small: "status (fst (convert_pdf e req w)) \<noteq> 400"
    if "length (content file) \<le> MAX_FILE_SIZE"
    using status_valid [OF assms(1) assms(2) assms(3) pdf that] .
  have "(status (fst (convert_pdf e req w)) = 400) = (MAX_FILE_SIZE < length (content file))"
  proof (cases "MAX_FILE_SIZE < length (content file)")
    case True
    with large show ?thesis by (simp add: error_response_def jsonify_def)
  next
    case False
    with small show ?thesis by simp
  qed
  with large t show ?thesis
    by (simp add: MAX_FILE_SIZE_def seek_start_def)
qed

theorem size_check_witness:
  "status (fst (convert_pdf good_env
      (post_to ''/api/convert'' [(''file'', upload_of ''a.pdf'' (replicate (10 * 1024 * 1024) 0))])
      empty_world)) \<noteq> 400 \<and>
   convert_pdf good_env
      (post_to ''/api/convert'' [(''file'', upload_of ''a.pdf'' (replicate (10 * 1024 * 1024 + 1) 0))])
      empty_world = (error_response 400 ''File size exceeds 10MB limit'', empty_world)"
  using
    size_check [of "post_to ''/api/convert'' [(''file'', upload_of ''a.pdf'' (replicate (10 * 1024 * 1024) 0))]"
      "upload_of ''a.pdf'' (replicate (10 * 1024 * 1024) 0)" good_env empty_world]
    size_check [of "post_to ''/api/convert'' [(''file'', upload_of ''a.pdf'' (replicate (10 * 1024 * 1024 + 1) 0))]"
      "upload_of ''a.pdf'' (replicate (10 * 1024 * 1024 + 1) 0)" good_env empty_world]
  by (simp add: post_to_def upload_of_def allowed_file_spec spec_is_pdf_def
      spec_extension_def lower_def lower_char_def tell_def seek_end_def)

subsection \<open>The preflight\<close>

text \<open>
  Claim C8, as the code has it. For every OPTIONS request the view returns at once:
  the answer has status 200, its body is the JSON object with the one entry
  \<open>status: ok\<close>, and it carries the headers \<open>Access-Control-Allow-Origin: *\<close>,
  \<open>Access-Control-Allow-Headers: Content-Type\<close> and \<open>Access-Control-Allow-Methods: POST\<close>;
  the request's files are not looked at, and the world is unchanged: no file is created
  or deleted and no external call is made.
\<close>

theorem preflight:
  assumes "http_method req = ''OPTIONS''"
  shows "convert_pdf e req w =
     (\<lparr>status = 200, content_type = ''application/json'', attachment = None,
       headers = [(''Access-Control-Allow-Origin'', ''*''),
                  (''Access-Control-Allow-Headers'', ''Content-Type''),
                  (''Access-Control-Allow-Methods'', ''POST'')],
       payload = JsonBody [(''status'', JString ''ok'')]\<rparr>, w)"
  using assms by (simp add: convert_pdf_def preflight_response_def headers_add_def jsonify_def)

theorem preflight_witness:
  "convert_pdf failing_unlink_env (options_to ''/api/convert'' [(''file'', upload_of ''a.txt'' [])])
      empty_world =
     (\<lparr>status = 200, content_type = ''application/json'', attachment = None,
       headers = [(''Access-Control-Allow-Origin'', ''*''),
                  (''Access-Control-Allow-Headers'', ''Content-Type''),
                  (''Access-Control-Allow-Methods'', ''POST'')],
       payload = JsonBody [(''status'', JString ''ok'')]\<rparr>, empty_world)"
  using preflight [of "options_to ''/api/convert'' [(''file'', upload_of ''a.txt'' [])]"
      failing_unlink_env empty_world]
  by (simp add: options_to_def)

text \<open>
  Claim C8 as stated fails in one point: the acknowledgment is not empty. Line 29
  builds the body from \<^verbatim>\<open>{'status': 'ok'}\<close>, so the body is neither the empty JSON
  object nor an empty sequence of bytes.
\<close>

theorem preflight_body_counterexample:
  "payload (fst (convert_pdf good_env (options_to ''/api/convert'' []) empty_world)) =
     JsonBody [(''status'', JString ''ok'')] \<and>
   payload (fst (convert_pdf good_env (options_to ''/api/convert'' []) empty_world)) \<noteq>
     JsonBody [] \<and>
   payload (fst (convert_pdf good_env (options_to ''/api/convert'' []) empty_world)) \<noteq>
     FileBody []"
  by (simp add: convert_pdf_def preflight_response_def headers_add_def jsonify_def options_to_def)

subsection \<open>Staging, conversion and cleanup\<close>

text \<open>Unfolding sets for evaluating the view on a concrete request.\<close>

lemmas view_defs = convert_pdf_def try_body_def stage_def named_temporary_file_def save_def
  convert_and_send_def send_file_def cleanup_def unlink_if_exists_def called_def
  headers_add_def error_response_def jsonify_def seek_end_def seek_start_def tell_def
  remaining_def MAX_FILE_SIZE_def docx_mimetype_def

lemmas string_defs = allowed_file_def rsplit1_def py_index_def ALLOWED_EXTENSIONS_def lower_def
  lower_char_def splitext_def secure_filename_def ascii_fold_def is_ascii_def py_split_def
  is_space_def filename_char_def py_strip_def

lemmas fixture_defs = good_env_def failing_converter_env_def failing_unlink_env_def
  empty_world_def upload_of_def post_to_def options_to_def

text \<open>
  When staging succeeds, both files are new, they are different files, and the only
  calls made are the two creations and the save.
\<close>

lemma stage_result:
  assumes "stage e f w = (Inr (pdf_path, docx_path), w1)"
  shows "fs w1 = (fs w)(pdf_path \<mapsto> remaining f, docx_path \<mapsto> [])"
    and "pdf_path \<noteq> docx_path"
    and "trace w1 = trace w @ [NamedTemporaryFile ''.pdf'', Save pdf_path, NamedTemporaryFile ''.docx'']"
  using assms
  by (auto simp: stage_def named_temporary_file_def save_def called_def Let_def
      split: sum.splits option.splits prod.splits if_splits)

lemma unlink_if_exists_ok:
  "unlink_error e p = None \<Longrightarrow>
   fst (unlink_if_exists e p w) = None \<and> fs (snd (unlink_if_exists e p w)) = (fs w)(p := None)"
  by (auto simp: unlink_if_exists_def called_def Let_def split: option.splits)

lemma cleanup_fs:
  assumes "unlink_error e pdf_path = None" and "unlink_error e docx_path = None"
  shows "fs (cleanup e pdf_path docx_path w) = (fs w)(pdf_path := None, docx_path := None)"
proof -
  obtain r1 w1 where u1: "unlink_if_exists e pdf_path w = (r1, w1)"
    by (cases "unlink_if_exists e pdf_path w")
  obtain r2 w2 where u2: "unlink_if_exists e docx_path w1 = (r2, w2)"
    by (cases "unlink_if_exists e docx_path w1")
  from unlink_if_exists_ok [OF assms(1), of w] u1
  have 1: "r1 = None" "fs w1 = (fs w)(pdf_path := None)" by simp_all
  from unlink_if_exists_ok [OF assms(2), of w1] u2
  have 2: "r2 = None" "fs w2 = (fs w1)(docx_path := None)" by simp_all
  from u1 u2 1 2 show ?thesis by (simp add: cleanup_def)
qed

lemma convert_pdf_staged:
  assumes "http_method req = ''POST''"
    and "map_of (files req) ''file'' = Some file"
    and "filename file \<noteq> []"
    and "allowed_file (filename file) = Inr True"
    and "length (content file) \<le> 10 * 1024 * 1024"
    and "stage e (seek_start (seek_end file)) w = (Inr (pdf_path, docx_path), w1)"
  shows "convert_pdf e req w =
     (case convert_and_send e pdf_path docx_path
             (fst (splitext (secure_filename (translit e) (filename file)))) w1 of
        (Inr response, w2) \<Rightarrow> (response, cleanup e pdf_path docx_path w2)
      | (Inl exn, w2) \<Rightarrow>
          (error_response 500 (''Conversion failed: '' @ exn),
           called (Print (''Conversion error: '' @ exn)) (cleanup e pdf_path docx_path w2)))"
proof -
  from assms(4) have pdf: "spec_is_pdf (filename file)" by (simp add: allowed_file_spec)
  from assms(5) have sz: "length (content file) \<le> MAX_FILE_SIZE" by (simp add: MAX_FILE_SIZE_def)
  show ?thesis
    by (simp add: convert_pdf_post [OF assms(1)] try_body_valid [OF assms(2) assms(3) pdf sz]
        assms(6) split: prod.splits sum.splits)
qed

lemma called_fs: "fs (called c w) = fs w"
  by (simp add: called_def)

lemma called_trace: "trace (called c w) = trace w @ [c]"
  by (simp add: called_def)

lemma convert_and_send_raises:
  "converter e p d (fs w) = (Some exn, fs') \<Longrightarrow>
   convert_and_send e p d b w = (Inl exn, (called (Convert p d) w)\<lparr>fs := fs'\<rparr>)"
  by (simp add: convert_and_send_def Let_def called_fs)

lemma convert_and_send_returns:
  "converter e p d (fs w) = (None, fs') \<Longrightarrow> fs' d = Some bs \<Longrightarrow>
   convert_and_send e p d b w =
     (Inr \<lparr>status = 200, content_type = docx_mimetype, attachment = Some (b @ ''.docx''),
           headers = [(''Access-Control-Allow-Origin'', ''*'')], payload = FileBody bs\<rparr>,
      called (SendFile d) ((called (Convert p d) w)\<lparr>fs := fs'\<rparr>))"
  by (simp add: convert_and_send_def send_file_def headers_add_def Let_def called_fs)

lemma convert_and_send_fs:
  "fs (snd (convert_and_send e p d b w)) = snd (converter e p d (fs w))"
  by (auto simp: convert_and_send_def send_file_def Let_def called_def
      split: prod.splits option.splits sum.splits)

lemma converter_calls_snoc:
  "converter_calls (cs @ [c]) = converter_calls cs + (if is_convert c then 1 else 0)"
  by (simp add: converter_calls_def)

lemma unlink_if_exists_calls:
  "converter_calls (trace (snd (unlink_if_exists e p w))) = converter_calls (trace w)"
  by (auto simp: unlink_if_exists_def called_def converter_calls_def Let_def split: option.splits)

lemma cleanup_calls:
  "converter_calls (trace (cleanup e p d w)) = converter_calls (trace w)"
proof -
  obtain r1 w1 where u1: "unlink_if_exists e p w = (r1, w1)"
    by (cases "unlink_if_exists e p w")
  obtain r2 w2 where u2: "unlink_if_exists e d w1 = (r2, w2)"
    by (cases "unlink_if_exists e d w1")
  from unlink_if_exists_calls [of e p w] u1
  have 1: "converter_calls (trace w1) = converter_calls (trace w)" by simp
  from unlink_if_exists_calls [of e d w1] u2
  have 2: "converter_calls (trace w2) = converter_calls (trace w1)" by simp
  from u1 u2 1 2 show ?thesis
    by (cases r1; cases r2) (simp_all add: cleanup_def called_def converter_calls_def)
qed

text \<open>
  Claim C1, as the code has it. For every POST request in which both temporary files
  were created, on every exit path (the converter returns and the file is sent, the
  converter raises, sending raises), if neither deletion of the cleanup raises an
  error, then neither temporary file is on disk when the view returns. The first two
  conjuncts record that both files were on disk after staging.
\<close>

theorem temporary_files_removed:
  assumes "http_method req = ''POST''"
    and "map_of (files req) ''file'' = Some file"
    and "filename file \<noteq> []"
    and "allowed_file (filename file) = Inr True"
    and "length (content file) \<le> 10 * 1024 * 1024"
    and "stage e (seek_start (seek_end file)) w = (Inr (pdf_path, docx_path), w1)"
    and "unlink_error e pdf_path = None"
    and "unlink_error e docx_path = None"
  shows "fs w1 pdf_path \<noteq> None \<and> fs w1 docx_path \<noteq> None \<and>
         fs (snd (convert_pdf e req w)) pdf_path = None \<and>
         fs (snd (convert_pdf e req w)) docx_path = None"
proof -
  note st = stage_result [OF assms(6)]
  have created: "fs w1 pdf_path \<noteq> None \<and> fs w1 docx_path \<noteq> None"
    using st(1) st(2) by simp
  have gone: "fs (snd (convert_pdf e req w)) =
      (fs (snd (convert_and_send e pdf_path docx_path
             (fst (splitext (secure_filename (translit e) (filename file)))) w1)))
        (pdf_path := None, docx_path := None)"
    by (simp add: convert_pdf_staged [OF assms(1-6)] cleanup_fs [OF assms(7) assms(8)] called_fs
        split: prod.splits sum.splits)
  from created show ?thesis
    by (simp add: gone)
qed

theorem temporary_files_removed_witness:
  "fs (snd (convert_pdf good_env
              (post_to ''/api/convert'' [(''file'', upload_of ''Report.PDF'' [37, 80, 68, 70])])
              empty_world)) ''/tmp/tmpk3x9.pdf'' = None \<and>
   fs (snd (convert_pdf good_env
              (post_to ''/api/convert'' [(''file'', upload_of ''Report.PDF'' [37, 80, 68, 70])])
              empty_world)) ''/tmp/tmpk3x9.docx'' = None \<and>
   fs (snd (convert_pdf failing_converter_env
              (post_to ''/api/convert'' [(''file'', upload_of ''Report.PDF'' [37, 80, 68, 70])])
              empty_world)) ''/tmp/tmpk3x9.pdf'' = None \<and>
   fs (snd (convert_pdf failing_converter_env
              (post_to ''/api/convert'' [(''file'', upload_of ''Report.PDF'' [37, 80, 68, 70])])
              empty_world)) ''/tmp/tmpk3x9.docx'' = None"
proof -
  let ?up = "upload_of ''Report.PDF'' [37, 80, 68, 70]"
  let ?req = "post_to ''/api/convert'' [(''file'', ?up)]"
  let ?w1 = "\<lparr>fs = [''/tmp/tmpk3x9.pdf'' \<mapsto> [37, 80, 68, 70], ''/tmp/tmpk3x9.docx'' \<mapsto> []],
              trace = [NamedTemporaryFile ''.pdf'', Save ''/tmp/tmpk3x9.pdf'',
                       NamedTemporaryFile ''.docx'']\<rparr>"
  have m: "http_method ?req = ''POST''" and f: "map_of (files ?req) ''file'' = Some ?up"
    and n: "filename ?up \<noteq> []" and a: "allowed_file (filename ?up) = Inr True"
    and l: "length (content ?up) \<le> 10 * 1024 * 1024"
    by (simp_all add: string_defs fixture_defs)
  have s1: "stage good_env (seek_start (seek_end ?up)) empty_world =
      (Inr (''/tmp/tmpk3x9.pdf'', ''/tmp/tmpk3x9.docx''), ?w1)"
    by (simp add: view_defs fixture_defs)
  have s2: "stage failing_converter_env (seek_start (seek_end ?up)) empty_world =
      (Inr (''/tmp/tmpk3x9.pdf'', ''/tmp/tmpk3x9.docx''), ?w1)"
    by (simp add: view_defs fixture_defs)
  have u1: "unlink_error good_env p = None" for p
    by (simp add: fixture_defs)
  have u2: "unlink_error failing_converter_env p = None" for p
    by (simp add: fixture_defs)
  from temporary_files_removed [OF m f n a l s1 u1 u1]
    temporary_files_removed [OF m f n a l s2 u2 u2]
  show ?thesis by simp
qed

text \<open>
  Claim C1 as stated fails when a deletion raises: the cleanup catches the error and
  prints it, and the view returns with the file still on disk. Here every deletion is
  refused; both temporary files were created and both remain after the request.
\<close>

theorem temporary_files_remain_counterexample:
  "fst (stage failing_unlink_env (seek_start (seek_end (upload_of ''Report.PDF'' [37, 80, 68, 70])))
          empty_world) = Inr (''/tmp/tmpk3x9.pdf'', ''/tmp/tmpk3x9.docx'') \<and>
   fs (snd (convert_pdf failing_unlink_env
              (post_to ''/api/convert'' [(''file'', upload_of ''Report.PDF'' [37, 80, 68, 70])])
              empty_world)) ''/tmp/tmpk3x9.pdf'' = Some [37, 80, 68, 70] \<and>
   fs (snd (convert_pdf failing_unlink_env
              (post_to ''/api/convert'' [(''file'', upload_of ''Report.PDF'' [37, 80, 68, 70])])
              empty_world)) ''/tmp/tmpk3x9.docx'' = Some [80, 75, 3, 4]"
  by (simp add: view_defs string_defs fixture_defs)

text \<open>
  Claim C3. For every request in which the Document Converter raises an error, the
  response has status 500 and the JSON body with \<open>success\<close> false and the error
  \<open>Conversion failed: \<close> followed by the text of the converter's error; the body is
  that JSON object, so no byte of the destination file is sent, also when the converter
  has left bytes there; and the converter was invoked exactly once in the request.
\<close>

theorem converter_failure:
  assumes "http_method req = ''POST''"
    and "map_of (files req) ''file'' = Some file"
    and "filename file \<noteq> []"
    and "allowed_file (filename file) = Inr True"
    and "length (content file) \<le> 10 * 1024 * 1024"
    and "stage e (seek_start (seek_end file)) w = (Inr (pdf_path, docx_path), w1)"
    and "converter e pdf_path docx_path (fs w1) = (Some exn, fs')"
  shows "fst (convert_pdf e req w) =
           \<lparr>status = 500, content_type = ''application/json'', attachment = None, headers = [],
            payload = JsonBody [(''success'', JBool False),
                                (''error'', JString (''Conversion failed: '' @ exn))]\<rparr> \<and>
         converter_calls (trace (snd (convert_pdf e req w))) = converter_calls (trace w) + 1"
proof -
  note st = stage_result [OF assms(6)]
  have "converter_calls (trace w1) = converter_calls (trace w)"
    by (simp add: st(3) converter_calls_def)
  then show ?thesis
    by (simp add: convert_pdf_staged [OF assms(1-6)] convert_and_send_raises [OF assms(7)]
        error_response_def jsonify_def cleanup_calls called_trace converter_calls_snoc)
qed

theorem converter_failure_witness:
  "fst (convert_pdf failing_converter_env
          (post_to ''/api/convert'' [(''file'', upload_of ''Report.PDF'' [37, 80, 68, 70])])
          empty_world) =
     \<lparr>status = 500, content_type = ''application/json'', attachment = None, headers = [],
      payload = JsonBody [(''success'', JBool False),
                          (''error'', JString ''Conversion failed: not a PDF'')]\<rparr> \<and>
   converter_calls (trace (snd (convert_pdf failing_converter_env
          (post_to ''/api/convert'' [(''file'', upload_of ''Report.PDF'' [37, 80, 68, 70])])
          empty_world))) = 1"
proof -
  let ?up = "upload_of ''Report.PDF'' [37, 80, 68, 70]"
  let ?req = "post_to ''/api/convert'' [(''file'', ?up)]"
  let ?w1 = "\<lparr>fs = [''/tmp/tmpk3x9.pdf'' \<mapsto> [37, 80, 68, 70], ''/tmp/tmpk3x9.docx'' \<mapsto> []],
              trace = [NamedTemporaryFile ''.pdf'', Save ''/tmp/tmpk3x9.pdf'',
                       NamedTemporaryFile ''.docx'']\<rparr>"
  have m: "http_method ?req = ''POST''" and f: "map_of (files ?req) ''file'' = Some ?up"
    and n: "filename ?up \<noteq> []" and a: "allowed_file (filename ?up) = Inr True"
    and l: "length (content ?up) \<le> 10 * 1024 * 1024"
    by (simp_all add: string_defs fixture_defs)
  have s: "stage failing_converter_env (seek_start (seek_end ?up)) empty_world =
      (Inr (''/tmp/tmpk3x9.pdf'', ''/tmp/tmpk3x9.docx''), ?w1)"
    by (simp add: view_defs fixture_defs)
  have c: "converter failing_converter_env ''/tmp/tmpk3x9.pdf'' ''/tmp/tmpk3x9.docx'' (fs ?w1) =
      (Some ''not a PDF'', (fs ?w1)(''/tmp/tmpk3x9.docx'' \<mapsto> [80, 75]))"
    by (simp add: fixture_defs)
  from converter_failure [OF m f n a l s c]
  show ?thesis by (simp add: converter_calls_def empty_world_def)
qed

text \<open>
  What sanitizing gives: only the characters the pattern keeps remain, the name does
  not begin with \<open>.\<close> or \<open>_\<close>, and the base name is a prefix of the sanitized name.
\<close>

lemma py_strip_subset: "set (py_strip chars s) \<subseteq> set s"
proof -
  have "set (dropWhile (\<lambda>c. c \<in> set chars) (rev (dropWhile (\<lambda>c. c \<in> set chars) s)))
          \<subseteq> set (rev (dropWhile (\<lambda>c. c \<in> set chars) s))"
    by (auto dest: set_dropWhileD)
  also have "\<dots> \<subseteq> set s"
    by (auto dest: set_dropWhileD)
  finally show ?thesis
    by (simp add: py_strip_def)
qed

lemma dropWhile_rev_hd:
  assumes "dropWhile P (rev (dropWhile P s)) \<noteq> []"
  shows "\<not> P (hd (rev (dropWhile P (rev (dropWhile P s)))))"
proof -
  let ?t = "dropWhile P s"
  have ne: "?t \<noteq> []"
  proof
    assume "?t = []"
    with assms show False by simp
  qed
  then have nP: "\<not> P (hd ?t)" by (rule hd_dropWhile)
  from ne obtain x xs where t: "?t = x # xs" by (cases ?t) auto
  with nP have nx: "\<not> P x" by simp
  then have "dropWhile P (rev xs @ [x]) = dropWhile P (rev xs) @ [x]"
    by (rule dropWhile_append3)
  then have "rev (dropWhile P (rev (x # xs))) = x # rev (dropWhile P (rev xs))" by simp
  then have "hd (rev (dropWhile P (rev ?t))) = x" by (simp only: t list.sel)
  with nx show ?thesis by simp
qed

lemma py_strip_lead: "py_strip chars s \<noteq> [] \<Longrightarrow> hd (py_strip chars s) \<notin> set chars"
  unfolding py_strip_def by (rule dropWhile_rev_hd) simp

lemma secure_filename_strip:
  "secure_filename tr f = py_strip ''._'' (filter filename_char
      (py_join ''_'' (py_split (map (\<lambda>c. if c = CHR ''/'' then CHR '' '' else c) (ascii_fold tr f)))))"
  by (simp only: secure_filename_def Let_def)

lemma secure_filename_chars:
  "set (secure_filename tr f) \<subseteq>
     set ''ABCDEFGHIJKLMNOPQRSTUVWXYZabcdefghijklmnopqrstuvwxyz0123456789_.-''"
proof
  fix c
  assume "c \<in> set (secure_filename tr f)"
  then have "c \<in> set (filter filename_char
      (py_join ''_'' (py_split (map (\<lambda>c. if c = CHR ''/'' then CHR '' '' else c) (ascii_fold tr f)))))"
    unfolding secure_filename_strip using py_strip_subset by blast
  then have "filename_char c"
    by (simp only: set_filter mem_Collect_eq)
  then show "c \<in> set ''ABCDEFGHIJKLMNOPQRSTUVWXYZabcdefghijklmnopqrstuvwxyz0123456789_.-''"
    by (simp only: filename_char_def)
qed

lemma secure_filename_lead:
  "take 1 (secure_filename tr f) \<noteq> ''.'' \<and> take 1 (secure_filename tr f) \<noteq> ''_''"
proof (cases "secure_filename tr f")
  case Nil
  then show ?thesis by simp
next
  case (Cons x xs)
  then have "secure_filename tr f \<noteq> []" by simp
  then have "hd (secure_filename tr f) \<notin> set ''._''"
    unfolding secure_filename_strip by (rule py_strip_lead)
  with Cons show ?thesis by simp
qed

lemma splitext_prefix: "\<exists>n. fst (splitext p) = take n p"
proof (cases "fst (splitext p) = p")
  case True
  then have "fst (splitext p) = take (length p) p" by simp
  then show ?thesis ..
next
  case False
  then show ?thesis
    by (auto simp: splitext_def Let_def split: option.splits if_splits)
qed

lemma splitext_base_chars:
  "set (fst (splitext (secure_filename tr f))) \<subseteq>
     set ''ABCDEFGHIJKLMNOPQRSTUVWXYZabcdefghijklmnopqrstuvwxyz0123456789_.-''"
proof -
  obtain n where "fst (splitext (secure_filename tr f)) = take n (secure_filename tr f)"
    using splitext_prefix by blast
  then have "set (fst (splitext (secure_filename tr f))) \<subseteq> set (secure_filename tr f)"
    by (simp add: set_take_subset)
  then show ?thesis
    using secure_filename_chars [of tr f] by (rule subset_trans)
qed

lemma splitext_base_lead:
  "take 1 (fst (splitext (secure_filename tr f))) \<noteq> ''.'' \<and>
   take 1 (fst (splitext (secure_filename tr f))) \<noteq> ''_''"
proof -
  obtain n where n: "fst (splitext (secure_filename tr f)) = take n (secure_filename tr f)"
    using splitext_prefix by blast
  show ?thesis
  proof (cases n)
    case 0
    with n show ?thesis by simp
  next
    case (Suc k)
    then have "take 1 (take n (secure_filename tr f)) = take 1 (secure_filename tr f)"
      by (simp add: min_def)
    then have e: "take 1 (fst (splitext (secure_filename tr f))) = take 1 (secure_filename tr f)"
      by (simp only: n)
    show ?thesis
      unfolding e by (rule secure_filename_lead)
  qed
qed

text \<open>
  Claim C6. For every valid upload for which conversion succeeds (the converter returns
  and has left a file at the destination), the response has status 200, its body is
  the bytes of that file, it is sent as an attachment named after the sanitized file
  name without its extension, followed by \<open>.docx\<close>, with the content type of Word
  documents and the header \<open>Access-Control-Allow-Origin: *\<close>. Sanitized means: every
  character of the base name is an ASCII letter, a digit, \<open>_\<close>, \<open>.\<close> or \<open>-\<close>, so it
  has no path separator, and it does not begin with a \<open>.\<close> or a \<open>_\<close>. An upload
  named \<open>Report.PDF\<close> gives the attachment name \<open>Report.docx\<close>, and one named
  \<open>../../etc/pass wd.pdf\<close> gives \<open>etc_pass_wd.docx\<close>.
\<close>

theorem conversion_success:
  assumes "http_method req = ''POST''"
    and "map_of (files req) ''file'' = Some file"
    and "filename file \<noteq> []"
    and "allowed_file (filename file) = Inr True"
    and "length (content file) \<le> 10 * 1024 * 1024"
    and "stage e (seek_start (seek_end file)) w = (Inr (pdf_path, docx_path), w1)"
    and "converter e pdf_path docx_path (fs w1) = (None, fs')"
    and "fs' docx_path = Some docx_bytes"
  shows "fst (convert_pdf e req w) =
           \<lparr>status = 200,
            content_type = ''application/vnd.openxmlformats-officedocument.wordprocessingml.document'',
            attachment = Some (fst (splitext (secure_filename (translit e) (filename file))) @ ''.docx''),
            headers = [(''Access-Control-Allow-Origin'', ''*'')],
            payload = FileBody docx_bytes\<rparr> \<and>
         set (fst (splitext (secure_filename (translit e) (filename file)))) \<subseteq>
           set ''ABCDEFGHIJKLMNOPQRSTUVWXYZabcdefghijklmnopqrstuvwxyz0123456789_.-'' \<and>
         CHR ''/'' \<notin> set (fst (splitext (secure_filename (translit e) (filename file)))) \<and>
         take 1 (fst (splitext (secure_filename (translit e) (filename file)))) \<noteq> ''.'' \<and>
         take 1 (fst (splitext (secure_filename (translit e) (filename file)))) \<noteq> ''_'' \<and>
         fst (splitext (secure_filename (translit e) ''Report.PDF'')) @ ''.docx'' = ''Report.docx'' \<and>
         fst (splitext (secure_filename (translit e) ''../../etc/pass wd.pdf'')) @ ''.docx'' =
           ''etc_pass_wd.docx''"
proof -
  let ?base = "fst (splitext (secure_filename (translit e) (filename file)))"
  have r: "fst (splitext (secure_filename (translit e) ''Report.PDF'')) @ ''.docx'' = ''Report.docx''"
    by (simp add: string_defs)
  have t: "fst (splitext (secure_filename (translit e) ''../../etc/pass wd.pdf'')) @ ''.docx'' =
      ''etc_pass_wd.docx''"
    by (simp add: string_defs)
  have chars: "set ?base \<subseteq> set ''ABCDEFGHIJKLMNOPQRSTUVWXYZabcdefghijklmnopqrstuvwxyz0123456789_.-''"
    using splitext_base_chars [of "translit e" "filename file"] .
  then have sep: "CHR ''/'' \<notin> set ?base"
    by auto
  note lead = splitext_base_lead [of "translit e" "filename file"]
  have resp: "fst (convert_pdf e req w) =
           \<lparr>status = 200,
            content_type = ''application/vnd.openxmlformats-officedocument.wordprocessingml.document'',
            attachment = Some (?base @ ''.docx''),
            headers = [(''Access-Control-Allow-Origin'', ''*'')],
            payload = FileBody docx_bytes\<rparr>"
    by (simp add: convert_pdf_staged [OF assms(1-6)] convert_and_send_returns [OF assms(7) assms(8)]
        docx_mimetype_def)
  from resp chars sep lead [THEN conjunct1] lead [THEN conjunct2] r t show ?thesis
    by (intro conjI)
qed

theorem conversion_success_witness:
  "fst (convert_pdf good_env
          (post_to ''/api/convert'' [(''file'', upload_of ''Report.PDF'' [37, 80, 68, 70])])
          empty_world) =
     \<lparr>status = 200,
      content_type = ''application/vnd.openxmlformats-officedocument.wordprocessingml.document'',
      attachment = Some ''Report.docx'',
      headers = [(''Access-Control-Allow-Origin'', ''*'')],
      payload = FileBody [80, 75, 3, 4]\<rparr> \<and>
   fst (convert_pdf good_env
          (post_to ''/api/convert'' [(''file'', upload_of ''../../etc/pass wd.pdf'' [37, 80, 68, 70])])
          empty_world) =
     \<lparr>status = 200,
      content_type = ''application/vnd.openxmlformats-officedocument.wordprocessingml.document'',
      attachment = Some ''etc_pass_wd.docx'',
      headers = [(''Access-Control-Allow-Origin'', ''*'')],
      payload = FileBody [80, 75, 3, 4]\<rparr>"
proof -
  let ?up = "upload_of ''Report.PDF'' [37, 80, 68, 70]"
  let ?req = "post_to ''/api/convert'' [(''file'', ?up)]"
  let ?up2 = "upload_of ''../../etc/pass wd.pdf'' [37, 80, 68, 70]"
  let ?req2 = "post_to ''/api/convert'' [(''file'', ?up2)]"
  let ?w1 = "\<lparr>fs = [''/tmp/tmpk3x9.pdf'' \<mapsto> [37, 80, 68, 70], ''/tmp/tmpk3x9.docx'' \<mapsto> []],
              trace = [NamedTemporaryFile ''.pdf'', Save ''/tmp/tmpk3x9.pdf'',
                       NamedTemporaryFile ''.docx'']\<rparr>"
  have m: "http_method ?req = ''POST''" and f: "map_of (files ?req) ''file'' = Some ?up"
    and n: "filename ?up \<noteq> []" and a: "allowed_file (filename ?up) = Inr True"
    and l: "length (content ?up) \<le> 10 * 1024 * 1024"
    by (simp_all add: string_defs fixture_defs)
  have m2: "http_method ?req2 = ''POST''" and f2: "map_of (files ?req2) ''file'' = Some ?up2"
    and n2: "filename ?up2 \<noteq> []" and a2: "allowed_file (filename ?up2) = Inr True"
    and l2: "length (content ?up2) \<le> 10 * 1024 * 1024"
    by (simp_all add: string_defs fixture_defs)
  have s: "stage good_env (seek_start (seek_end ?up)) empty_world =
      (Inr (''/tmp/tmpk3x9.pdf'', ''/tmp/tmpk3x9.docx''), ?w1)"
    by (simp add: view_defs fixture_defs)
  have s2: "stage good_env (seek_start (seek_end ?up2)) empty_world =
      (Inr (''/tmp/tmpk3x9.pdf'', ''/tmp/tmpk3x9.docx''), ?w1)"
    by (simp add: view_defs fixture_defs)
  have c: "converter good_env ''/tmp/tmpk3x9.pdf'' ''/tmp/tmpk3x9.docx'' (fs ?w1) =
      (None, (fs ?w1)(''/tmp/tmpk3x9.docx'' \<mapsto> [80, 75, 3, 4]))"
    by (simp add: fixture_defs)
  have d: "((fs ?w1)(''/tmp/tmpk3x9.docx'' \<mapsto> [80, 75, 3, 4])) ''/tmp/tmpk3x9.docx'' =
      Some [80, 75, 3, 4]"
    by simp
  note cs = conversion_success [where docx_path = "''/tmp/tmpk3x9.docx''"
      and fs' = "(fs ?w1)(''/tmp/tmpk3x9.docx'' \<mapsto> [80, 75, 3, 4])", OF m f n a l s c d]
  note cs2 = conversion_success [where docx_path = "''/tmp/tmpk3x9.docx''"
      and fs' = "(fs ?w1)(''/tmp/tmpk3x9.docx'' \<mapsto> [80, 75, 3, 4])", OF m2 f2 n2 a2 l2 s2 c d]
  have nm: "fst (splitext (secure_filename (translit good_env) (filename ?up))) = ''Report''"
    by (simp add: string_defs fixture_defs)
  have nm2: "fst (splitext (secure_filename (translit good_env) (filename ?up2))) = ''etc_pass_wd''"
    by (simp add: string_defs fixture_defs)
  have 1: "fst (convert_pdf good_env ?req empty_world) =
     \<lparr>status = 200,
      content_type = ''application/vnd.openxmlformats-officedocument.wordprocessingml.document'',
      attachment = Some ''Report.docx'',
      headers = [(''Access-Control-Allow-Origin'', ''*'')],
      payload = FileBody [80, 75, 3, 4]\<rparr>"
    by (simp only: cs [THEN conjunct1] nm) simp
  have 2: "fst (convert_pdf good_env ?req2 empty_world) =
     \<lparr>status = 200,
      content_type = ''application/vnd.openxmlformats-officedocument.wordprocessingml.document'',
      attachment = Some ''etc_pass_wd.docx'',
      headers = [(''Access-Control-Allow-Origin'', ''*'')],
      payload = FileBody [80, 75, 3, 4]\<rparr>"
    by (simp only: cs2 [THEN conjunct1] nm2) simp
  from 1 2 show ?thesis by (intro conjI)
qed

subsection \<open>Errors of the cleanup\<close>

text \<open>No step before the cleanup depends on how deletions behave.\<close>

lemma named_temporary_file_unlink:
  "named_temporary_file (e\<lparr>unlink_error := u\<rparr>) suffix w = named_temporary_file e suffix w"
  by (simp add: named_temporary_file_def)

lemma save_unlink: "save (e\<lparr>unlink_error := u\<rparr>) f p w = save e f p w"
  by (simp add: save_def)

lemma stage_unlink: "stage (e\<lparr>unlink_error := u\<rparr>) f w = stage e f w"
  unfolding stage_def named_temporary_file_unlink save_unlink ..

lemma send_file_unlink: "send_file (e\<lparr>unlink_error := u\<rparr>) p n m w = send_file e p n m w"
  by (simp add: send_file_def Let_def split: option.splits)

lemma convert_and_send_unlink:
  "convert_and_send (e\<lparr>unlink_error := u\<rparr>) p d b w = convert_and_send e p d b w"
  unfolding convert_and_send_def send_file_unlink
  by (simp add: Let_def split: prod.splits option.splits)

lemma try_body_unlink: "fst (try_body (e\<lparr>unlink_error := u\<rparr>) req w) = fst (try_body e req w)"
  unfolding try_body_def stage_unlink convert_and_send_unlink
  by (simp add: Let_def split: option.splits sum.splits prod.splits)

lemma convert_pdf_response:
  "fst (convert_pdf e req w) =
     (if http_method req = ''OPTIONS'' then preflight_response
      else case fst (try_body e req w) of
             Inr response \<Rightarrow> response
           | Inl exn \<Rightarrow> error_response 500 (''Conversion failed: '' @ exn))"
  by (simp add: convert_pdf_def split: prod.splits sum.splits)

lemma cleanup_logs_first:
  assumes "fs w p \<noteq> None" and "unlink_error e p = Some err"
  shows "trace (cleanup e p d w) = trace w @ [Exists p, Unlink p, Print (''Cleanup error: '' @ err)]"
  using assms by (auto simp: cleanup_def unlink_if_exists_def called_def Let_def)

lemma cleanup_logs_second:
  assumes "unlink_error e p = None" and "p \<noteq> d" and "fs w d \<noteq> None"
    and "unlink_error e d = Some err"
  shows "last (trace (cleanup e p d w)) = Print (''Cleanup error: '' @ err)"
  using assms by (auto simp: cleanup_def unlink_if_exists_def called_def Let_def split: option.splits)

text \<open>
  Claim C9. For every request and every behaviour \<open>u\<close> of the deletions, the response
  (status, headers and body) is the one the request gets when every deletion succeeds;
  an error raised by the deletion of either temporary file is caught by the cleanup,
  which prints \<open>Cleanup error: \<close> followed by the error's text and returns.
\<close>

theorem cleanup_errors_swallowed:
  "fst (convert_pdf (e\<lparr>unlink_error := u\<rparr>) req w) =
     fst (convert_pdf (e\<lparr>unlink_error := (\<lambda>p. None)\<rparr>) req w) \<and>
   (fs wc pdf_path \<noteq> None \<and> u pdf_path = Some err \<longrightarrow>
      trace (cleanup (e\<lparr>unlink_error := u\<rparr>) pdf_path docx_path wc) =
        trace wc @ [Exists pdf_path, Unlink pdf_path, Print (''Cleanup error: '' @ err)]) \<and>
   (u pdf_path = None \<and> pdf_path \<noteq> docx_path \<and> fs wc docx_path \<noteq> None \<and>
    u docx_path = Some err \<longrightarrow>
      last (trace (cleanup (e\<lparr>unlink_error := u\<rparr>) pdf_path docx_path wc)) =
        Print (''Cleanup error: '' @ err))"
proof -
  have "fst (convert_pdf (e\<lparr>unlink_error := u\<rparr>) req w) =
     fst (convert_pdf (e\<lparr>unlink_error := (\<lambda>p. None)\<rparr>) req w)"
    by (simp add: convert_pdf_response try_body_unlink)
  then show ?thesis
    by (simp add: cleanup_logs_first cleanup_logs_second)
qed

theorem cleanup_errors_swallowed_witness:
  "fst (convert_pdf failing_unlink_env
          (post_to ''/api/convert'' [(''file'', upload_of ''Report.PDF'' [37, 80, 68, 70])])
          empty_world) =
   fst (convert_pdf good_env
          (post_to ''/api/convert'' [(''file'', upload_of ''Report.PDF'' [37, 80, 68, 70])])
          empty_world) \<and>
   trace (cleanup failing_unlink_env ''/tmp/tmpk3x9.pdf'' ''/tmp/tmpk3x9.docx''
            \<lparr>fs = [''/tmp/tmpk3x9.pdf'' \<mapsto> [37, 80, 68, 70],
                    ''/tmp/tmpk3x9.docx'' \<mapsto> [80, 75, 3, 4]],
              trace = []\<rparr>) =
     [Exists ''/tmp/tmpk3x9.pdf'', Unlink ''/tmp/tmpk3x9.pdf'',
      Print ''Cleanup error: [Errno 13] Permission denied''] \<and>
   trace (snd (convert_pdf failing_unlink_env
          (post_to ''/api/convert'' [(''file'', upload_of ''Report.PDF'' [37, 80, 68, 70])])
          empty_world)) =
     [NamedTemporaryFile ''.pdf'', Save ''/tmp/tmpk3x9.pdf'', NamedTemporaryFile ''.docx'',
      Convert ''/tmp/tmpk3x9.pdf'' ''/tmp/tmpk3x9.docx'', SendFile ''/tmp/tmpk3x9.docx'',
      Exists ''/tmp/tmpk3x9.pdf'', Unlink ''/tmp/tmpk3x9.pdf'',
      Print ''Cleanup error: [Errno 13] Permission denied'']"
proof -
  let ?req = "post_to ''/api/convert'' [(''file'', upload_of ''Report.PDF'' [37, 80, 68, 70])]"
  let ?w = "\<lparr>fs = [''/tmp/tmpk3x9.pdf'' \<mapsto> [37, 80, 68, 70],
                    ''/tmp/tmpk3x9.docx'' \<mapsto> [80, 75, 3, 4]],
              trace = []\<rparr>"
  have g: "good_env\<lparr>unlink_error := (\<lambda>p. None)\<rparr> = good_env"
    by (simp add: good_env_def)
  note t = cleanup_errors_swallowed [where e = good_env
      and u = "\<lambda>p. Some ''[Errno 13] Permission denied''" and req = ?req and w = empty_world
      and wc = ?w and pdf_path = "''/tmp/tmpk3x9.pdf''" and docx_path = "''/tmp/tmpk3x9.docx''"
      and err = "''[Errno 13] Permission denied''"]
  have 1: "fst (convert_pdf failing_unlink_env ?req empty_world) =
           fst (convert_pdf good_env ?req empty_world)"
    using t by (simp add: g failing_unlink_env_def)
  have 2: "trace (cleanup failing_unlink_env ''/tmp/tmpk3x9.pdf'' ''/tmp/tmpk3x9.docx'' ?w) =
     [Exists ''/tmp/tmpk3x9.pdf'', Unlink ''/tmp/tmpk3x9.pdf'',
      Print ''Cleanup error: [Errno 13] Permission denied'']"
    using t by (simp add: failing_unlink_env_def)
  have 3: "trace (snd (convert_pdf failing_unlink_env ?req empty_world)) =
     [NamedTemporaryFile ''.pdf'', Save ''/tmp/tmpk3x9.pdf'', NamedTemporaryFile ''.docx'',
      Convert ''/tmp/tmpk3x9.pdf'' ''/tmp/tmpk3x9.docx'', SendFile ''/tmp/tmpk3x9.docx'',
      Exists ''/tmp/tmpk3x9.pdf'', Unlink ''/tmp/tmpk3x9.pdf'',
      Print ''Cleanup error: [Errno 13] Permission denied'']"
    by (simp add: view_defs string_defs fixture_defs)
  from 1 2 3 show ?thesis by (intro conjI)
qed

subsection \<open>The route\<close>

lemma no_file_uploaded_iff:
  assumes "http_method req = ''POST''"
  shows "(fst (convert_pdf e req w) = error_response 400 ''No file uploaded'') =
         (map_of (files req) ''file'' = None)"
proof (cases "map_of (files req) ''file''")
  case None
  then show ?thesis
    by (simp add: convert_pdf_post [OF assms] try_body_no_field)
next
  case (Some f)
  have "fst (convert_pdf e req w) \<noteq> error_response 400 ''No file uploaded''"
  proof (cases "filename f = []")
    case True
    with Some show ?thesis
      by (simp add: convert_pdf_post [OF assms] try_body_no_name error_response_def jsonify_def)
  next
    case name: False
    show ?thesis
    proof (cases "spec_is_pdf (filename f)")
      case False
      with Some name show ?thesis
        by (simp add: convert_pdf_post [OF assms] try_body_not_pdf error_response_def jsonify_def)
    next
      case pdf: True
      show ?thesis
      proof (cases "MAX_FILE_SIZE < length (content f)")
        case True
        with Some name pdf show ?thesis
          by (simp add: convert_pdf_post [OF assms] try_body_too_large error_response_def
              jsonify_def)
      next
        case False
        then have "length (content f) \<le> MAX_FILE_SIZE" by simp
        from status_valid [OF assms Some name pdf this, of e w] show ?thesis
          by (auto simp: error_response_def jsonify_def)
      qed
    qed
  qed
  with Some show ?thesis by simp
qed

text \<open>
  Claim C7, as the code has it. The endpoint is exposed at the path \<open>/api/convert\<close>:
  a POST to that path is dispatched to the view, and the view finds the upload under
  the form field named \<open>file\<close> (the request is rejected for a missing file exactly
  when the form has no field of that name).
\<close>

theorem route_api_convert:
  assumes "url_path req = ''/api/convert''" and "http_method req = ''POST''"
  shows "full_dispatch_request e req w =
           (Inr (fst (convert_pdf e req w)), snd (convert_pdf e req w)) \<and>
         (fst (convert_pdf e req w) = error_response 400 ''No file uploaded'') =
           (map_of (files req) ''file'' = None)"
  using assms
  by (simp add: full_dispatch_request_def route_rule_def route_methods_def
      no_file_uploaded_iff split: prod.splits)

theorem route_api_convert_witness:
  "full_dispatch_request good_env
      (post_to ''/api/convert'' [(''file'', upload_of ''Report.PDF'' [37, 80, 68, 70])])
      empty_world =
     (Inr (fst (convert_pdf good_env
             (post_to ''/api/convert'' [(''file'', upload_of ''Report.PDF'' [37, 80, 68, 70])])
             empty_world)),
      snd (convert_pdf good_env
             (post_to ''/api/convert'' [(''file'', upload_of ''Report.PDF'' [37, 80, 68, 70])])
             empty_world)) \<and>
   fst (convert_pdf good_env
          (post_to ''/api/convert'' [(''file'', upload_of ''Report.PDF'' [37, 80, 68, 70])])
          empty_world) \<noteq> error_response 400 ''No file uploaded''"
  using route_api_convert [of
      "post_to ''/api/convert'' [(''file'', upload_of ''Report.PDF'' [37, 80, 68, 70])]"
      good_env empty_world]
  by (simp add: post_to_def)

text \<open>
  Claim C7 as stated fails: no rule matches the path \<open>/convert\<close>, so a POST to it with
  a valid upload in the field \<open>file\<close> is answered \<open>404 Not Found\<close> and the view does
  not run.
\<close>

theorem route_counterexample:
  "full_dispatch_request good_env
      (post_to ''/convert'' [(''file'', upload_of ''Report.PDF'' [37, 80, 68, 70])]) empty_world =
     (Inl NotFound, empty_world)"
  by (simp add: full_dispatch_request_def route_rule_def post_to_def)

end
